theory Spec2Isabelle
  imports Complex_Main
begin

section \<open>MAST utilities: \<^verbatim>\<open>astroquery/mast/utils.py\<close>\<close>

subsection \<open>Python strings and case conversion\<close>

text \<open>
  A Python \<^verbatim>\<open>str\<close> is modelled as a \<open>string\<close>, one \<open>char\<close> per code point, which covers
  the strs of code points below 256. On these, \<^verbatim>\<open>str.lower\<close> changes the letters A to Z and
  the Latin-1 capitals (code points 192 to 222 without the multiplication sign 215), each
  to the code point 32 above it, and nothing else. \<^verbatim>\<open>str.upper\<close> is modelled on the ASCII
  letters only, which is what it does on an ASCII str; it is applied below to the
  recognized tokens, which are ASCII.
\<close>

definition ascii_uppercase :: string where
  "ascii_uppercase = ''ABCDEFGHIJKLMNOPQRSTUVWXYZ''"

definition ascii_lowercase :: string where
  "ascii_lowercase = ''abcdefghijklmnopqrstuvwxyz''"

definition latin1_uppercase :: string where
  "latin1_uppercase =
     [CHR 0xC0, CHR 0xC1, CHR 0xC2, CHR 0xC3, CHR 0xC4, CHR 0xC5,
      CHR 0xC6, CHR 0xC7, CHR 0xC8, CHR 0xC9, CHR 0xCA, CHR 0xCB,
      CHR 0xCC, CHR 0xCD, CHR 0xCE, CHR 0xCF, CHR 0xD0, CHR 0xD1,
      CHR 0xD2, CHR 0xD3, CHR 0xD4, CHR 0xD5, CHR 0xD6, CHR 0xD8,
      CHR 0xD9, CHR 0xDA, CHR 0xDB, CHR 0xDC, CHR 0xDD, CHR 0xDE]"

definition latin1_lowercase :: string where
  "latin1_lowercase =
     [CHR 0xE0, CHR 0xE1, CHR 0xE2, CHR 0xE3, CHR 0xE4, CHR 0xE5,
      CHR 0xE6, CHR 0xE7, CHR 0xE8, CHR 0xE9, CHR 0xEA, CHR 0xEB,
      CHR 0xEC, CHR 0xED, CHR 0xEE, CHR 0xEF, CHR 0xF0, CHR 0xF1,
      CHR 0xF2, CHR 0xF3, CHR 0xF4, CHR 0xF5, CHR 0xF6, CHR 0xF8,
      CHR 0xF9, CHR 0xFA, CHR 0xFB, CHR 0xFC, CHR 0xFD, CHR 0xFE]"

definition lower_char :: "char \<Rightarrow> char" where
  "lower_char c =
     (case map_of (zip (ascii_uppercase @ latin1_uppercase)
                       (ascii_lowercase @ latin1_lowercase)) c of
        Some d \<Rightarrow> d
      | None \<Rightarrow> c)"

definition upper_char :: "char \<Rightarrow> char" where
  "upper_char c =
     (case map_of (zip ascii_lowercase ascii_uppercase) c of
        Some d \<Rightarrow> d
      | None \<Rightarrow> c)"

definition lower :: "string \<Rightarrow> string" where
  "lower s = map lower_char s"

definition upper :: "string \<Rightarrow> string" where
  "upper s = map upper_char s"

subsection \<open>\<^verbatim>\<open>_parse_type\<close>\<close>

text \<open>
  The values that occur in the triplets of \<^verbatim>\<open>_parse_type\<close>: strings, the type objects
  \<^verbatim>\<open>str\<close>, \<^verbatim>\<open>np.float64\<close>, \<^verbatim>\<open>np.int64\<close>, \<^verbatim>\<open>bool\<close> and \<^verbatim>\<open>np.ubyte\<close>, integers,
  \<^verbatim>\<open>np.nan\<close> and \<^verbatim>\<open>None\<close>.
\<close>

datatype pytype = Ty_str | Ty_float64 | Ty_int64 | Ty_bool | Ty_ubyte

datatype pyobj = PStr string | PType pytype | PInt int | PNaN | PNone

type_synonym triplet = "pyobj \<times> pyobj \<times> pyobj"

text \<open>The dictionary literal of lines 45 to 63, in the order of the source.\<close>

definition type_table :: "(string \<times> triplet) list" where
  "type_table =
     [(''char'', (PStr ''string'', PType Ty_str, PStr '''')),
      (''string'', (PStr ''string'', PType Ty_str, PStr '''')),
      (''datetime'', (PStr ''string'', PType Ty_str, PStr '''')),
      (''date'', (PStr ''string'', PType Ty_str, PStr '''')),
      (''double'', (PStr ''float'', PType Ty_float64, PNaN)),
      (''float'', (PStr ''float'', PType Ty_float64, PNaN)),
      (''decimal'', (PStr ''float'', PType Ty_float64, PNaN)),
      (''int'', (PStr ''integer'', PType Ty_int64, PInt (- 999))),
      (''short'', (PStr ''integer'', PType Ty_int64, PInt (- 999))),
      (''long'', (PStr ''integer'', PType Ty_int64, PInt (- 999))),
      (''number'', (PStr ''integer'', PType Ty_int64, PInt (- 999))),
      (''boolean'', (PStr ''boolean'', PType Ty_bool, PNone)),
      (''binary'', (PStr ''boolean'', PType Ty_bool, PNone)),
      (''unsignedbyte'', (PStr ''byte'', PType Ty_ubyte, PInt (- 999)))]"

definition recognized_tokens :: "string list" where
  "recognized_tokens = map fst type_table"

text \<open>
  \<^verbatim>\<open>dbtype = dbtype.lower()\<close> rebinds the argument, so that both the key of the lookup and
  the default of \<^verbatim>\<open>.get\<close> are the lower-cased string.
\<close>

definition parse_type :: "string \<Rightarrow> triplet" where
  "parse_type dbtype =
     (let dbtype = lower dbtype
      in case map_of type_table dbtype of
           Some t \<Rightarrow> t
         | None \<Rightarrow> (PStr dbtype, PStr dbtype, PStr dbtype))"

subsection \<open>Exceptions\<close>

text \<open>
  Every exception that the module lets escape is a value. \<open>HTTPError\<close> carries the status
  code of the response, \<open>ResolverError\<close> its message, \<open>KeyError\<close> the missing key, and
  \<open>Foreign\<close> the class name of an exception raised inside a library that is a parameter
  of the model (the network, the body parser, the coordinate class).
\<close>

datatype error =
    TypeError
  | KeyError string
  | IndexError
  | HTTPError nat
  | ResolverError string
  | Foreign string

subsection \<open>JSON values and the Python operations on them\<close>

text \<open>
  What \<^verbatim>\<open>response.json()\<close> returns: \<^verbatim>\<open>None\<close>, a bool, a number, a str, a list or a dict
  with str keys (distinct, in insertion order).
\<close>

datatype json =
    JNull
  | JBool bool
  | JNum real
  | JStr string
  | JArr "json list"
  | JObj "(string \<times> json) list"

text \<open>\<^verbatim>\<open>x[key]\<close> for a str key: only a dict supports it, and a missing key raises.\<close>

fun getitem_key :: "json \<Rightarrow> string \<Rightarrow> error + json" where
  "getitem_key (JObj kvs) k =
     (case map_of kvs k of None \<Rightarrow> Inl (KeyError k) | Some v \<Rightarrow> Inr v)"
| "getitem_key _ k = Inl TypeError"

text \<open>\<^verbatim>\<open>len(x)\<close>: defined on lists, dicts and strs.\<close>

fun py_len :: "json \<Rightarrow> error + nat" where
  "py_len (JArr xs) = Inr (length xs)"
| "py_len (JObj kvs) = Inr (length kvs)"
| "py_len (JStr s) = Inr (length s)"
| "py_len _ = Inl TypeError"

text \<open>
  \<^verbatim>\<open>x[0]\<close>: the first element of a list, the first character of a str; a dict parsed from
  JSON has no key \<^verbatim>\<open>0\<close>.
\<close>

fun getitem_0 :: "json \<Rightarrow> error + json" where
  "getitem_0 (JArr []) = Inl IndexError"
| "getitem_0 (JArr (x # xs)) = Inr x"
| "getitem_0 (JStr []) = Inl IndexError"
| "getitem_0 (JStr (c # cs)) = Inr (JStr [c])"
| "getitem_0 (JObj kvs) = Inl (KeyError ''0'')"
| "getitem_0 _ = Inl TypeError"

subsection \<open>\<^verbatim>\<open>json.dumps\<close> and \<^verbatim>\<open>urllib.parse.urlencode\<close>\<close>

text \<open>
  \<^verbatim>\<open>json.dumps\<close> with its default arguments, on the values it is given in this module:
  strs and dicts with str keys. Items are separated by a comma and a space, key and value
  by a colon and a space. In a str, the double quote, the backslash and the control
  characters with a short form are escaped with a backslash; every other character
  outside the range from space to tilde is written as \<^verbatim>\<open>\u00XX\<close>.
\<close>

datatype pyval = Str string | Dict "(string \<times> pyval) list"

definition hex_digit :: "nat \<Rightarrow> char" where
  "hex_digit n = ''0123456789abcdef'' ! (n mod 16)"

definition escape_char :: "char \<Rightarrow> string" where
  "escape_char c =
     (if c = CHR 0x22 then [CHR 0x5C, CHR 0x22]
      else if c = CHR 0x5C then [CHR 0x5C, CHR 0x5C]
      else if c = CHR 0x0A then [CHR 0x5C, CHR ''n'']
      else if c = CHR 0x0D then [CHR 0x5C, CHR ''r'']
      else if c = CHR 0x09 then [CHR 0x5C, CHR ''t'']
      else if c = CHR 0x08 then [CHR 0x5C, CHR ''b'']
      else if c = CHR 0x0C then [CHR 0x5C, CHR ''f'']
      else if (of_char c :: nat) < 32 \<or> 126 < (of_char c :: nat)
        then [CHR 0x5C, CHR ''u'', CHR ''0'', CHR ''0'',
              hex_digit (of_char c div 16), hex_digit (of_char c)]
      else [c])"

definition dumps_str :: "string \<Rightarrow> string" where
  "dumps_str s = [CHR 0x22] @ concat (map escape_char s) @ [CHR 0x22]"

fun join :: "string \<Rightarrow> string list \<Rightarrow> string" where
  "join sep [] = []"
| "join sep [x] = x"
| "join sep (x # y # ys) = x @ sep @ join sep (y # ys)"

fun json_dumps :: "pyval \<Rightarrow> string" where
  "json_dumps (Str s) = dumps_str s"
| "json_dumps (Dict kvs) =
     ''{'' @ join '', '' (map (\<lambda>kv. dumps_str (fst kv) @ '': '' @ json_dumps (snd kv)) kvs)
       @ ''}''"

text \<open>
  \<^verbatim>\<open>urllib.parse.urlencode(query)\<close> expects a mapping or a sequence of pairs. Its argument at
  line 100 is a str, which has no \<^verbatim>\<open>items\<close>, so the function runs
  \<^verbatim>\<open>if len(query) and not isinstance(query[0], tuple): raise TypeError\<close>:
  a str that is not empty raises \<^verbatim>\<open>TypeError\<close>, and the empty str encodes to the empty str.
\<close>

definition urlencode :: "string \<Rightarrow> error + string" where
  "urlencode query = (if length query \<noteq> 0 then Inl TypeError else Inr [])"

subsection \<open>The network and the configuration\<close>

text \<open>
  A request as \<^verbatim>\<open>requests.get(url, params=params, headers=headers)\<close> is given it, and the
  two members of the response that the module reads: \<^verbatim>\<open>status_code\<close>, and the result of
  \<^verbatim>\<open>json()\<close>, which is the parsed body or the exception of the parser.
\<close>

record request =
  req_url :: string
  req_params :: string
  req_headers :: "(string \<times> string) list"

record response =
  status_code :: nat
  json_body :: "string + json"

record skycoord =
  ra :: real
  dec :: real

text \<open>
  What the module reads from outside itself: \<^verbatim>\<open>version\<close>, the \<^verbatim>\<open>User-Agent\<close> of a fresh
  \<^verbatim>\<open>requests.session()\<close>, \<^verbatim>\<open>conf.server\<close>, the network behind \<^verbatim>\<open>requests.get\<close> (which
  answers a request or raises), and \<^verbatim>\<open>astropy.coordinates.SkyCoord\<close> called with two
  values and a unit (which builds a position or raises).
\<close>

record env =
  version :: string
  session_user_agent :: string
  server :: string
  transport :: "request \<Rightarrow> string + response"
  sky_coord :: "json \<Rightarrow> json \<Rightarrow> string \<Rightarrow> string + skycoord"

subsection \<open>\<^verbatim>\<open>_simple_request\<close>\<close>

text \<open>
  \<^verbatim>\<open>Response.raise_for_status\<close> of the requests library raises \<^verbatim>\<open>HTTPError\<close> for a client
  error (400 to 499) and for a server error (500 to 599), and returns otherwise.
\<close>

definition raise_for_status :: "response \<Rightarrow> error + unit" where
  "raise_for_status r =
     (if 400 \<le> status_code r \<and> status_code r < 500 then Inl (HTTPError (status_code r))
      else if 500 \<le> status_code r \<and> status_code r < 600 then Inl (HTTPError (status_code r))
      else Inr ())"

text \<open>The header dictionary of lines 73 to 75.\<close>

definition request_headers :: "env \<Rightarrow> (string \<times> string) list" where
  "request_headers env =
     [(''User-Agent'', ''astroquery/'' @ version env @ '' '' @ session_user_agent env),
      (''Content-type'', ''application/x-www-form-urlencoded''),
      (''Accept'', ''text/plain'')]"

text \<open>
  The state that is passed through is the list of the requests put on the network so far;
  \<^verbatim>\<open>requests.get\<close> appends one to it, whatever the answer is.
\<close>

definition simple_request ::
  "env \<Rightarrow> string \<Rightarrow> string \<Rightarrow> request list \<Rightarrow> (error + response) \<times> request list" where
  "simple_request env url params sent =
     (let headers = request_headers env;
          req = \<lparr>req_url = url, req_params = params, req_headers = headers\<rparr>;
          sent' = sent @ [req]
      in case transport env req of
           Inl exn \<Rightarrow> (Inl (Foreign exn), sent')
         | Inr response \<Rightarrow>
             (case raise_for_status response of
                Inl e \<Rightarrow> (Inl e, sent')
              | Inr _ \<Rightarrow> (Inr response, sent')))"

subsection \<open>\<^verbatim>\<open>resolve_object\<close>\<close>

text \<open>
  Lines 105 to 112: what \<^verbatim>\<open>resolve_object\<close> does with the parsed body. The subscript
  \<^verbatim>\<open>result['resolvedCoordinate']\<close> is evaluated again for each use, as in the source.
\<close>

definition resolve_result :: "env \<Rightarrow> string \<Rightarrow> json \<Rightarrow> error + skycoord" where
  "resolve_result env objectname result =
     (case getitem_key result ''resolvedCoordinate'' of
        Inl e \<Rightarrow> Inl e
      | Inr candidates \<Rightarrow>
     (case py_len candidates of
        Inl e \<Rightarrow> Inl e
      | Inr n \<Rightarrow>
     if n = 0
     then Inl (ResolverError (''Could not resolve '' @ objectname @ '' to a sky position.''))
     else
     (case getitem_0 candidates of
        Inl e \<Rightarrow> Inl e
      | Inr first \<Rightarrow>
     (case getitem_key first ''ra'' of
        Inl e \<Rightarrow> Inl e
      | Inr ra_value \<Rightarrow>
     (case getitem_key first ''decl'' of
        Inl e \<Rightarrow> Inl e
      | Inr dec_value \<Rightarrow>
     (case sky_coord env ra_value dec_value ''deg'' of
        Inl exn \<Rightarrow> Inl (Foreign exn)
      | Inr coordinates \<Rightarrow> Inr coordinates))))))"

text \<open>The dictionary of lines 98 and 99.\<close>

definition request_args :: "string \<Rightarrow> pyval" where
  "request_args objectname =
     Dict [(''service'', Str ''Mast.Name.Lookup''),
           (''params'', Dict [(''input'', Str objectname), (''format'', Str ''json'')])]"

text \<open>
  The whole function. An exception of line 100 leaves before \<^verbatim>\<open>_simple_request\<close> is
  called, so the list of requests is returned as it was.
\<close>

definition resolve_object ::
  "env \<Rightarrow> string \<Rightarrow> request list \<Rightarrow> (error + skycoord) \<times> request list" where
  "resolve_object env objectname sent =
     (case urlencode (json_dumps (request_args objectname)) of
        Inl e \<Rightarrow> (Inl e, sent)
      | Inr encoded \<Rightarrow>
          (let request_string = ''request='' @ encoded
           in case simple_request env (server env @ ''/api/v0/invoke'') request_string sent of
                (Inl e, sent') \<Rightarrow> (Inl e, sent')
              | (Inr response, sent') \<Rightarrow>
                  (case json_body response of
                     Inl exn \<Rightarrow> (Inl (Foreign exn), sent')
                   | Inr result \<Rightarrow> (resolve_result env objectname result, sent'))))"

subsection \<open>Test doubles\<close>

text \<open>
  A coordinate class that accepts two numbers, a network that answers every request with
  one fixed response, and the bodies and responses used as concrete inputs below.
\<close>

definition degrees_coord :: "json \<Rightarrow> json \<Rightarrow> string \<Rightarrow> string + skycoord" where
  "degrees_coord a d unit =
     (case (a, d) of
        (JNum x, JNum y) \<Rightarrow> Inr \<lparr>ra = x, dec = y\<rparr>
      | _ \<Rightarrow> Inl ''TypeError'')"

definition mock_env :: "response \<Rightarrow> env" where
  "mock_env r =
     \<lparr>version = ''0.4.dev'', session_user_agent = ''python-requests/2.31.0'',
      server = ''https://mast.stsci.edu'', transport = (\<lambda>req. Inr r),
      sky_coord = degrees_coord\<rparr>"

definition crab_body :: json where
  "crab_body =
     JObj [(''resolvedCoordinate'',
            JArr [JObj [(''ra'', JNum 83.633), (''decl'', JNum 22.0145)],
                  JObj [(''decl'', JNum (- 5.39)), (''ra'', JNum 83.82)]])]"

definition empty_body :: json where
  "empty_body = JObj [(''resolvedCoordinate'', JArr [])]"

definition ok_response :: "json \<Rightarrow> response" where
  "ok_response body = \<lparr>status_code = 200, json_body = Inr body\<rparr>"

definition status_response :: "nat \<Rightarrow> response" where
  "status_response n = \<lparr>status_code = n, json_body = Inl ''JSONDecodeError''\<rparr>"

section \<open>Properties of \<^verbatim>\<open>_parse_type\<close>\<close>

lemmas case_defs =
  lower_char_def upper_char_def ascii_uppercase_def ascii_lowercase_def
  latin1_uppercase_def latin1_lowercase_def

lemma lower_char_idem: "lower_char (lower_char c) = lower_char c"
  by (cases "c \<in> set (ascii_uppercase @ latin1_uppercase)") (auto simp: case_defs)

lemma lower_idem: "lower (lower s) = lower s"
  by (simp add: lower_def lower_char_idem)

lemma lower_upper_token: "\<forall>T \<in> set recognized_tokens. lower (upper T) = lower T"
  by (simp add: recognized_tokens_def type_table_def lower_def upper_def case_defs)

lemma map_of_type_table_None: "s \<notin> set recognized_tokens \<Longrightarrow> map_of type_table s = None"
  by (simp add: recognized_tokens_def map_of_eq_None_iff)

text \<open>
  Claim C5. For each of the fourteen recognized tokens, \<^verbatim>\<open>_parse_type\<close> returns the triplet
  of the table: char, string, datetime and date give ('string', str, ""); double, float
  and decimal give ('float', np.float64, nan); int, short, long and number give
  ('integer', np.int64, -999); boolean and binary give ('boolean', bool, None);
  unsignedbyte gives ('byte', np.ubyte, -999).
\<close>

theorem parse_type_table:
  "parse_type ''char'' = (PStr ''string'', PType Ty_str, PStr '''') \<and>
   parse_type ''string'' = (PStr ''string'', PType Ty_str, PStr '''') \<and>
   parse_type ''datetime'' = (PStr ''string'', PType Ty_str, PStr '''') \<and>
   parse_type ''date'' = (PStr ''string'', PType Ty_str, PStr '''') \<and>
   parse_type ''double'' = (PStr ''float'', PType Ty_float64, PNaN) \<and>
   parse_type ''float'' = (PStr ''float'', PType Ty_float64, PNaN) \<and>
   parse_type ''decimal'' = (PStr ''float'', PType Ty_float64, PNaN) \<and>
   parse_type ''int'' = (PStr ''integer'', PType Ty_int64, PInt (- 999)) \<and>
   parse_type ''short'' = (PStr ''integer'', PType Ty_int64, PInt (- 999)) \<and>
   parse_type ''long'' = (PStr ''integer'', PType Ty_int64, PInt (- 999)) \<and>
   parse_type ''number'' = (PStr ''integer'', PType Ty_int64, PInt (- 999)) \<and>
   parse_type ''boolean'' = (PStr ''boolean'', PType Ty_bool, PNone) \<and>
   parse_type ''binary'' = (PStr ''boolean'', PType Ty_bool, PNone) \<and>
   parse_type ''unsignedbyte'' = (PStr ''byte'', PType Ty_ubyte, PInt (- 999))"
  by (simp add: parse_type_def lower_def case_defs type_table_def)

text \<open>
  Claim C6, as stated: a string that is not a recognized token comes back unchanged in
  all three positions. It fails for a string with an upper-case letter: \<^verbatim>\<open>'Foo'\<close> is not a
  recognized token, and the triplet holds \<^verbatim>\<open>'foo'\<close>.
\<close>

theorem parse_type_echo_counterexample:
  "''Foo'' \<notin> set recognized_tokens \<and>
   parse_type ''Foo'' \<noteq> (PStr ''Foo'', PStr ''Foo'', PStr ''Foo'')"
  by (simp add: recognized_tokens_def parse_type_def Let_def lower_def case_defs type_table_def)

text \<open>
  Claim C6, amended. For every string whose lower-cased form is not a recognized token,
  \<^verbatim>\<open>_parse_type\<close> returns the lower-cased string in all three positions. The function is
  total: every string has a triplet, none raises.
\<close>

theorem parse_type_unrecognized:
  "lower S \<notin> set recognized_tokens \<Longrightarrow>
   parse_type S = (PStr (lower S), PStr (lower S), PStr (lower S))"
  by (simp add: parse_type_def Let_def map_of_type_table_None)

theorem parse_type_unrecognized_witness:
  "lower ''Foo'' \<notin> set recognized_tokens \<and>
   parse_type ''Foo'' = (PStr ''foo'', PStr ''foo'', PStr ''foo'')"
proof -
  have l: "lower ''Foo'' = ''foo''"
    by (simp add: lower_def case_defs)
  have h: "lower ''Foo'' \<notin> set recognized_tokens"
    unfolding l by (simp add: recognized_tokens_def type_table_def)
  show ?thesis
    using h parse_type_unrecognized [OF h] by (simp add: l)
qed

text \<open>
  Claim C7. For every recognized token T, \<^verbatim>\<open>_parse_type\<close> returns the same triplet for the
  upper-cased T as for T.
\<close>

theorem parse_type_upper:
  "T \<in> set recognized_tokens \<Longrightarrow> parse_type (upper T) = parse_type T"
  by (simp add: parse_type_def lower_upper_token)

theorem parse_type_upper_witness:
  "''short'' \<in> set recognized_tokens \<and> parse_type ''SHORT'' = parse_type ''short''"
proof -
  have h: "''short'' \<in> set recognized_tokens"
    by (simp add: recognized_tokens_def type_table_def)
  have u: "upper ''short'' = ''SHORT''"
    by (simp add: upper_def case_defs)
  show ?thesis
    using h parse_type_upper [OF h] by (simp add: u)
qed

text \<open>
  Claim C9. For every string, recognized or not, \<^verbatim>\<open>_parse_type\<close> returns the same triplet
  for the string and for its lower-cased form.
\<close>

theorem parse_type_lower: "parse_type s = parse_type (lower s)"
  by (simp add: parse_type_def lower_idem)

section \<open>Properties of \<^verbatim>\<open>_simple_request\<close>\<close>

text \<open>
  Claim C8. For every url and params, the request that \<^verbatim>\<open>_simple_request\<close> puts on the
  network carries the content type \<^verbatim>\<open>application/x-www-form-urlencoded\<close>, accepts
  \<^verbatim>\<open>text/plain\<close>, and has the user agent \<^verbatim>\<open>astroquery/\<close>, the version, a space and the
  default user agent of the session. The headers depend on neither url nor params.
  (The source spells the first name \<^verbatim>\<open>Content-type\<close>; header names are case-insensitive.)
\<close>

theorem simple_request_headers:
  "snd (simple_request env url params sent) =
     sent @ [\<lparr>req_url = url, req_params = params,
              req_headers =
                [(''User-Agent'',
                  ''astroquery/'' @ version env @ '' '' @ session_user_agent env),
                 (''Content-type'', ''application/x-www-form-urlencoded''),
                 (''Accept'', ''text/plain'')]\<rparr>]"
  by (simp add: simple_request_def request_headers_def Let_def split: sum.splits)

text \<open>
  Claim C4, as stated: \<^verbatim>\<open>_simple_request\<close> fails exactly when the status is outside the
  success range. It fails for the status 304, which is outside 200 to 299: the response is
  returned and nothing is raised.
\<close>

theorem simple_request_not_modified_counterexample:
  "status_code (status_response 304) = 304 \<and>
   \<not> (200 \<le> status_code (status_response 304) \<and> status_code (status_response 304) < 300) \<and>
   fst (simple_request (mock_env (status_response 304)) ''u'' ''p'' []) =
     Inr (status_response 304)"
  by (simp add: simple_request_def raise_for_status_def Let_def mock_env_def
      status_response_def)

text \<open>
  Claim C4, amended. When the network answers the request with a response,
  \<^verbatim>\<open>_simple_request\<close> fails exactly when the status code is from 400 to 599, the failure is
  the HTTP-status error of that code, and for every other status code the response is
  returned as it is.
\<close>

theorem simple_request_fails_iff_error_status:
  assumes "transport env
             \<lparr>req_url = url, req_params = params, req_headers = request_headers env\<rparr> = Inr r"
  shows "((\<exists>e. fst (simple_request env url params sent) = Inl e) \<longleftrightarrow>
            400 \<le> status_code r \<and> status_code r < 600)
       \<and> fst (simple_request env url params sent) =
            (if 400 \<le> status_code r \<and> status_code r < 600
             then Inl (HTTPError (status_code r))
             else Inr r)"
  using assms by (simp add: simple_request_def raise_for_status_def Let_def)

theorem simple_request_fails_iff_error_status_witness:
  "transport (mock_env (status_response 404))
     \<lparr>req_url = ''u'', req_params = ''p'',
      req_headers = request_headers (mock_env (status_response 404))\<rparr> =
     Inr (status_response 404)
   \<and> fst (simple_request (mock_env (status_response 404)) ''u'' ''p'' []) =
       Inl (HTTPError 404)
   \<and> transport (mock_env (ok_response empty_body))
       \<lparr>req_url = ''u'', req_params = ''p'',
        req_headers = request_headers (mock_env (ok_response empty_body))\<rparr> =
       Inr (ok_response empty_body)
   \<and> fst (simple_request (mock_env (ok_response empty_body)) ''u'' ''p'' []) =
       Inr (ok_response empty_body)"
proof -
  have h: "transport (mock_env (status_response 404))
             \<lparr>req_url = ''u'', req_params = ''p'',
              req_headers = request_headers (mock_env (status_response 404))\<rparr> =
             Inr (status_response 404)"
    by (simp add: mock_env_def)
  have k: "transport (mock_env (ok_response empty_body))
             \<lparr>req_url = ''u'', req_params = ''p'',
              req_headers = request_headers (mock_env (ok_response empty_body))\<rparr> =
             Inr (ok_response empty_body)"
    by (simp add: mock_env_def)
  show ?thesis
    using h k simple_request_fails_iff_error_status [OF h, of "[]"]
      simple_request_fails_iff_error_status [OF k, of "[]"]
    by (simp add: status_response_def ok_response_def)
qed

section \<open>Properties of \<^verbatim>\<open>resolve_object\<close>\<close>

subsection \<open>Lines 105 to 112 on a parsed body\<close>

lemma getitem_key_not_ResolverError: "getitem_key x k \<noteq> Inl (ResolverError m)"
  by (cases x) (simp_all split: option.splits)

lemma py_len_not_ResolverError: "py_len x \<noteq> Inl (ResolverError m)"
  by (cases x) simp_all

lemma getitem_0_not_ResolverError: "getitem_0 x \<noteq> Inl (ResolverError m)"
  by (induction x rule: getitem_0.induct) simp_all

lemma resolve_result_empty:
  assumes "getitem_key result ''resolvedCoordinate'' = Inr (JArr [])"
  shows "resolve_result env objectname result =
           Inl (ResolverError (''Could not resolve '' @ objectname @ '' to a sky position.''))"
  using assms by (simp add: resolve_result_def)

lemma resolve_result_first:
  assumes "getitem_key result ''resolvedCoordinate'' = Inr (JArr (JObj cand # rest))"
    and "map_of cand ''ra'' = Some r"
    and "map_of cand ''decl'' = Some d"
  shows "resolve_result env objectname result =
           (case sky_coord env r d ''deg'' of
              Inl exn \<Rightarrow> Inl (Foreign exn)
            | Inr c \<Rightarrow> Inr c)"
  using assms by (simp add: resolve_result_def)

lemma resolve_result_ignores_rest:
  "resolve_result env objectname (JObj [(''resolvedCoordinate'', JArr (c # rest))]) =
   resolve_result env objectname (JObj [(''resolvedCoordinate'', JArr [c])])"
  by (simp add: resolve_result_def)

lemma resolve_result_missing_ra:
  assumes "getitem_key result ''resolvedCoordinate'' = Inr (JArr (JObj cand # rest))"
    and "map_of cand ''ra'' = None"
  shows "resolve_result env objectname result = Inl (KeyError ''ra'')"
  using assms by (simp add: resolve_result_def)

lemma resolve_result_missing_decl:
  assumes "getitem_key result ''resolvedCoordinate'' = Inr (JArr (JObj cand # rest))"
    and "map_of cand ''ra'' = Some r"
    and "map_of cand ''decl'' = None"
  shows "resolve_result env objectname result = Inl (KeyError ''decl'')"
  using assms by (simp add: resolve_result_def)

lemma resolve_result_ResolverError_iff:
  "(\<exists>msg. resolve_result env objectname result = Inl (ResolverError msg)) \<longleftrightarrow>
   (\<exists>c. getitem_key result ''resolvedCoordinate'' = Inr c \<and> py_len c = Inr 0)"
  by (auto simp add: resolve_result_def getitem_key_not_ResolverError
      py_len_not_ResolverError getitem_0_not_ResolverError split: sum.splits)

subsection \<open>Line 100\<close>

lemma json_dumps_nonempty: "json_dumps v \<noteq> []"
  by (cases v) (simp_all add: dumps_str_def)

lemma urlencode_json_dumps: "urlencode (json_dumps v) = Inl TypeError"
  by (simp add: urlencode_def json_dumps_nonempty)

subsection \<open>The whole function\<close>

text \<open>
  Claim C3 says that \<^verbatim>\<open>resolve_object\<close> serializes the payload, URL-encodes the JSON string
  and submits \<^verbatim>\<open>request=\<close> followed by the encoded string to \<^verbatim>\<open>/api/v0/invoke\<close>. The code
  hands the JSON string to \<^verbatim>\<open>urlencode\<close>, which raises on it: for every object name the
  function ends with \<^verbatim>\<open>TypeError\<close> and no request has been put on the network.
\<close>

theorem resolve_object_sends_nothing:
  "resolve_object env objectname sent = (Inl TypeError, sent)"
  by (simp add: resolve_object_def urlencode_json_dumps)

text \<open>
  Claim C1 says that a body with a candidate list that is not empty makes \<^verbatim>\<open>resolve_object\<close>
  return the position of the candidate at index 0. With a network that answers 200 and two
  candidates, \<^verbatim>\<open>resolve_object('Crab Nebula')\<close> ends with \<^verbatim>\<open>TypeError\<close>, although lines 105 to
  112 on that body give the position of the first candidate.
\<close>

theorem resolve_object_crab_nebula:
  "resolve_object (mock_env (ok_response crab_body)) ''Crab Nebula'' [] = (Inl TypeError, [])
   \<and> resolve_result (mock_env (ok_response crab_body)) ''Crab Nebula'' crab_body =
       Inr \<lparr>ra = 83.633, dec = 22.0145\<rparr>"
  by (simp add: resolve_object_def urlencode_json_dumps resolve_result_def crab_body_def
      mock_env_def degrees_coord_def)

text \<open>
  Claim C2 says that an empty candidate list makes \<^verbatim>\<open>resolve_object\<close> fail with a
  \<^verbatim>\<open>ResolverError\<close> whose message holds the object name. With a network that answers 200
  and an empty list, \<^verbatim>\<open>resolve_object('nonexistent-object-xyz')\<close> ends with \<^verbatim>\<open>TypeError\<close>,
  although lines 105 and 106 on that body give the \<^verbatim>\<open>ResolverError\<close> with the name.
\<close>

theorem resolve_object_nonexistent:
  "resolve_object (mock_env (ok_response empty_body)) ''nonexistent-object-xyz'' [] =
     (Inl TypeError, [])
   \<and> resolve_result (mock_env (ok_response empty_body)) ''nonexistent-object-xyz'' empty_body =
       Inl (ResolverError ''Could not resolve nonexistent-object-xyz to a sky position.'')"
  by (simp add: resolve_object_def urlencode_json_dumps resolve_result_def empty_body_def)

text \<open>
  Claim C10 says that \<^verbatim>\<open>resolve_object\<close> raises \<^verbatim>\<open>ResolverError\<close> if and only if the
  candidate list is empty. The function raises no \<^verbatim>\<open>ResolverError\<close> at all, whatever the
  network answers, so an empty list does not give one.
\<close>

theorem resolve_object_never_ResolverError:
  "fst (resolve_object env objectname sent) \<noteq> Inl (ResolverError msg)"
  by (simp add: resolve_object_def urlencode_json_dumps)

end
